theory Spec2Isabelle
  imports Complex_Main "HOL-Library.Multiset" "HOL-Library.AList" "HOL-Library.Log_Nat"
begin

section \<open>JavaScript values used by the waterfall mapper\<close>

text \<open>
  The mapper of \<^verbatim>\<open>src/mappers/waterfall-svg/index.js\<close> computes with JavaScript numbers.
  A number is modelled as a finite rational, \<open>NaN\<close> or one of the two infinities. The
  operations \<open>num_add\<close>, \<open>num_sub\<close>, \<open>num_mul\<close>, \<open>num_div\<close> and \<open>num_mod\<close> are exact on
  finite operands; they serve where what is stated does not depend on rounding
  (differences of timestamps and their maxima, the remainder by the step). Where rounding
  decides, in the height of the chart, the operations \<open>double_add\<close>, \<open>double_sub\<close> and
  \<open>double_mul\<close> round the exact result to the nearest double. The sign of zero is left
  out. The model keeps the part of the language the mapper runs into: arithmetic on
  \<^verbatim>\<open>undefined\<close> gives \<open>NaN\<close>, division and remainder by zero give \<open>NaN\<close> or an infinity and
  raise nothing.
\<close>

datatype jsnum = Fin rat | NaN | PosInf | NegInf

datatype error = Error string | TypeError | RangeError

text \<open>\<^verbatim>\<open>ToNumber\<close> on a property that holds a number or is absent (\<^verbatim>\<open>undefined\<close>).\<close>

fun toNumber :: "rat option \<Rightarrow> jsnum" where
  "toNumber (Some q) = Fin q"
| "toNumber None = NaN"

fun num_neg :: "jsnum \<Rightarrow> jsnum" where
  "num_neg (Fin a) = Fin (- a)"
| "num_neg NaN = NaN"
| "num_neg PosInf = NegInf"
| "num_neg NegInf = PosInf"

fun num_add :: "jsnum \<Rightarrow> jsnum \<Rightarrow> jsnum" where
  "num_add (Fin a) (Fin b) = Fin (a + b)"
| "num_add NaN _ = NaN"
| "num_add _ NaN = NaN"
| "num_add PosInf NegInf = NaN"
| "num_add NegInf PosInf = NaN"
| "num_add PosInf _ = PosInf"
| "num_add _ PosInf = PosInf"
| "num_add NegInf _ = NegInf"
| "num_add _ NegInf = NegInf"

definition num_sub :: "jsnum \<Rightarrow> jsnum \<Rightarrow> jsnum" where
  "num_sub a b = num_add a (num_neg b)"

text \<open>The sign of a product or quotient with an infinite operand; zero counts as positive zero.\<close>

definition signed_inf :: "bool \<Rightarrow> jsnum" where
  "signed_inf positive = (if positive then PosInf else NegInf)"

fun num_mul :: "jsnum \<Rightarrow> jsnum \<Rightarrow> jsnum" where
  "num_mul (Fin a) (Fin b) = Fin (a * b)"
| "num_mul NaN _ = NaN"
| "num_mul _ NaN = NaN"
| "num_mul (Fin a) PosInf = (if a = 0 then NaN else signed_inf (0 < a))"
| "num_mul (Fin a) NegInf = (if a = 0 then NaN else signed_inf (a < 0))"
| "num_mul PosInf (Fin b) = (if b = 0 then NaN else signed_inf (0 < b))"
| "num_mul NegInf (Fin b) = (if b = 0 then NaN else signed_inf (b < 0))"
| "num_mul PosInf PosInf = PosInf"
| "num_mul NegInf NegInf = PosInf"
| "num_mul PosInf NegInf = NegInf"
| "num_mul NegInf PosInf = NegInf"

fun num_div :: "jsnum \<Rightarrow> jsnum \<Rightarrow> jsnum" where
  "num_div (Fin a) (Fin b) =
     (if b \<noteq> 0 then Fin (a / b) else if a = 0 then NaN else signed_inf (0 < a))"
| "num_div NaN _ = NaN"
| "num_div _ NaN = NaN"
| "num_div (Fin a) PosInf = Fin 0"
| "num_div (Fin a) NegInf = Fin 0"
| "num_div PosInf (Fin b) = signed_inf (0 \<le> b)"
| "num_div NegInf (Fin b) = signed_inf (b < 0)"
| "num_div PosInf PosInf = NaN"
| "num_div PosInf NegInf = NaN"
| "num_div NegInf PosInf = NaN"
| "num_div NegInf NegInf = NaN"

text \<open>The remainder operator \<^verbatim>\<open>%\<close> truncates the quotient towards zero and keeps the
  dividend's sign; a zero divisor gives \<open>NaN\<close>.\<close>

definition trunc :: "rat \<Rightarrow> int" where
  "trunc q = (if 0 \<le> q then \<lfloor>q\<rfloor> else \<lceil>q\<rceil>)"

fun num_mod :: "jsnum \<Rightarrow> jsnum \<Rightarrow> jsnum" where
  "num_mod (Fin a) (Fin b) = (if b = 0 then NaN else Fin (a - b * of_int (trunc (a / b))))"
| "num_mod NaN _ = NaN"
| "num_mod _ NaN = NaN"
| "num_mod PosInf _ = NaN"
| "num_mod NegInf _ = NaN"
| "num_mod (Fin a) PosInf = Fin a"
| "num_mod (Fin a) NegInf = Fin a"

fun Math_ceil :: "jsnum \<Rightarrow> jsnum" where
  "Math_ceil (Fin a) = Fin (of_int \<lceil>a\<rceil>)"
| "Math_ceil NaN = NaN"
| "Math_ceil PosInf = PosInf"
| "Math_ceil NegInf = NegInf"

text \<open>
  Rounding to the nearest double, ties to even. \<open>exponent x\<close> is the integer \<open>e\<close> with
  \<open>2^e \<le> \<bar>x\<bar> < 2^(e + 1)\<close>; a double has 53 significant bits, so its last bit weighs
  \<open>2^(e - 52)\<close>, and \<open>2^(- 1074)\<close> for the subnormal numbers below \<open>2^(- 1022)\<close>. A result
  that rounds to \<open>2^1024\<close> or beyond is an infinity. \<open>double_add\<close>, \<open>double_sub\<close> and
  \<open>double_mul\<close> are the operators \<^verbatim>\<open>+\<close>, \<^verbatim>\<open>-\<close> and \<^verbatim>\<open>*\<close> on doubles: the exact result, rounded.
\<close>

definition exponent :: "rat \<Rightarrow> int" where
  "exponent x =
     (let a = \<bar>x\<bar>
      in if 1 \<le> a then bitlen \<lfloor>a\<rfloor> - 1 else - bitlen (\<lceil>1 / a\<rceil> - 1))"

definition round_half_even :: "rat \<Rightarrow> int" where
  "round_half_even m =
     (let f = \<lfloor>m\<rfloor>; d = m - of_int f
      in if d < 1 / 2 then f else if 1 / 2 < d then f + 1 else if even f then f else f + 1)"

definition to_double :: "rat \<Rightarrow> jsnum" where
  "to_double x =
     (if x = 0 then Fin 0
      else
        let e = max (exponent x) (- 1022);
            ulp = power_int 2 (e - 52);
            r = of_int (round_half_even (x / ulp)) * ulp
        in if 2 ^ 1024 \<le> \<bar>r\<bar> then signed_inf (0 < x) else Fin r)"

fun rounded :: "jsnum \<Rightarrow> jsnum" where
  "rounded (Fin q) = to_double q"
| "rounded NaN = NaN"
| "rounded PosInf = PosInf"
| "rounded NegInf = NegInf"

definition double_add :: "jsnum \<Rightarrow> jsnum \<Rightarrow> jsnum" where
  "double_add a b = rounded (num_add a b)"


definition double_mul :: "jsnum \<Rightarrow> jsnum \<Rightarrow> jsnum" where
  "double_mul a b = rounded (num_mul a b)"

text \<open>A callback that may throw, threaded through \<^verbatim>\<open>Array.prototype.reduce\<close> with an
  initial value, and the sequencing of two steps the first of which may throw.\<close>

definition andThen :: "error + 'a \<Rightarrow> ('a \<Rightarrow> error + 'b) \<Rightarrow> error + 'b" where
  "andThen r f = (case r of Inl e \<Rightarrow> Inl e | Inr v \<Rightarrow> f v)"

fun reduce :: "('b \<Rightarrow> 'a \<Rightarrow> error + 'b) \<Rightarrow> 'b \<Rightarrow> 'a list \<Rightarrow> error + 'b" where
  "reduce f acc [] = Inr acc"
| "reduce f acc (x # xs) = andThen (f acc x) (\<lambda>acc'. reduce f acc' xs)"

section \<open>Resource mapper\<close>

text \<open>
  A raw resource event as the beacon delivers it. \<open>res_events\<close> is the \<^verbatim>\<open>events\<close> object:
  an association list in the order in which the engine enumerates its keys; a property
  read takes the first entry of that name (\<open>map_of\<close>), an absent name reads \<^verbatim>\<open>undefined\<close>.
  \<open>ts_requestStart\<close> is optional (\<open>None\<close> when the property is absent).
\<close>

record event =
  ev_start :: rat
  ev_end :: rat

record timestamps =
  ts_start :: rat
  ts_fetchStart :: rat
  ts_requestStart :: "rat option"

record raw_resource =
  res_name :: string
  res_type :: string
  res_timestamps :: timestamps
  res_events :: "(string \<times> event) list"

text \<open>The object handed to \<open>mapTiming\<close>: the source passes objects of the shapes
  \<^verbatim>\<open>{start, end}\<close> and \<^verbatim>\<open>{start, duration}\<close>; a property the object does not have is
  \<open>None\<close>.\<close>

record timing_object =
  o_start :: rat
  o_end :: "rat option"
  o_duration :: "rat option"

text \<open>A timing segment of the result. \<open>t_blocked\<close> is true when the property
  \<^verbatim>\<open>blocked\<close> has been set on the segment (the source only ever sets it to \<^verbatim>\<open>true\<close>).\<close>

record timing =
  t_name :: string
  t_start :: rat
  t_duration :: jsnum
  t_blocked :: bool

record normalized_resource =
  n_page :: string
  n_name :: string
  n_type :: string
  n_start :: rat
  n_duration :: rat
  n_timings :: "timing list"

definition Object_keys :: "(string \<times> 'a) list \<Rightarrow> string list" where
  "Object_keys obj = map fst obj"

definition of_event :: "event \<Rightarrow> timing_object" where
  "of_event ev = \<lparr>o_start = ev_start ev, o_end = Some (ev_end ev), o_duration = None\<rparr>"

definition getResourceDuration :: "raw_resource \<Rightarrow> rat \<Rightarrow> string \<Rightarrow> error + rat" where
  "getResourceDuration resource duration eventName =
     (case map_of (res_events resource) eventName of
        None \<Rightarrow> Inl TypeError
      | Some ev \<Rightarrow>
          (let eventDuration = ev_end ev - ts_start (res_timestamps resource)
           in if eventDuration > duration then Inr eventDuration else Inr duration))"

function mapTiming :: "string \<Rightarrow> timing_object option \<Rightarrow> timing" where
  "mapTiming name (Some event) =
     \<lparr>t_name = name, t_start = o_start event,
      t_duration = num_sub (toNumber (o_end event)) (Fin (o_start event)),
      t_blocked = False\<rparr>"
| "mapTiming name None =
     mapTiming name (Some \<lparr>o_start = 0, o_end = Some 0, o_duration = None\<rparr>)"
  by pat_completeness auto
termination
  by (relation "measure (\<lambda>(name, event). case event of None \<Rightarrow> 1 | Some _ \<Rightarrow> 0)") auto

definition mapEvent :: "string \<Rightarrow> raw_resource \<Rightarrow> timing" where
  "mapEvent name resource =
     mapTiming name (map_option of_event (map_of (res_events resource) name))"

text \<open>\<^verbatim>\<open>requestStart && events.response\<close>: a number is truthy when it is present and not
  zero, an event object when it is present.\<close>

definition mapRequestTiming :: "raw_resource \<Rightarrow> timing" where
  "mapRequestTiming resource =
     (let requestTiming =
        (case ts_requestStart (res_timestamps resource) of
           None \<Rightarrow> None
         | Some requestStart \<Rightarrow>
             if requestStart = 0 then None
             else (case map_of (res_events resource) ''response'' of
                     None \<Rightarrow> None
                   | Some response \<Rightarrow>
                       Some \<lparr>o_start = requestStart, o_end = Some (ev_start response),
                             o_duration = None\<rparr>))
      in mapTiming ''request'' requestTiming)"

definition mapResource :: "string \<Rightarrow> raw_resource \<Rightarrow> error + normalized_resource" where
  "mapResource referer resource =
     andThen
       (reduce (getResourceDuration resource)
          (ts_fetchStart (res_timestamps resource) - ts_start (res_timestamps resource))
          (Object_keys (res_events resource)))
       (\<lambda>duration.
          let result =
            \<lparr>n_page = referer,
             n_name = res_name resource,
             n_type = res_type resource,
             n_start = ts_start (res_timestamps resource),
             n_duration = duration,
             n_timings =
               [mapTiming ''blocked''
                  (Some \<lparr>o_start = ts_start (res_timestamps resource), o_end = None,
                         o_duration = Some duration\<rparr>),
                mapEvent ''redirect'' resource,
                mapEvent ''dns'' resource,
                mapEvent ''connect'' resource,
                mapRequestTiming resource,
                mapEvent ''response'' resource]\<rparr>
          in Inr (result\<lparr>n_timings :=
                    (n_timings result)[0 := (n_timings result ! 0)\<lparr>t_blocked := True\<rparr>]\<rparr>))"

text \<open>The example of the specification: start 100, fetchStart 120, requestStart 140, a dns
  event from 105 to 115 and a response event from 150 to 200.\<close>

definition example_resource :: raw_resource where
  "example_resource =
     \<lparr>res_name = ''http://example.com/a.js'', res_type = ''script'',
      res_timestamps = \<lparr>ts_start = 100, ts_fetchStart = 120, ts_requestStart = Some 140\<rparr>,
      res_events =
        [(''dns'', \<lparr>ev_start = 105, ev_end = 115\<rparr>),
         (''response'', \<lparr>ev_start = 150, ev_end = 200\<rparr>)]\<rparr>"

section \<open>Settings validation\<close>

text \<open>
  The settings are loaded from a JSON document, so \<open>verifySettings\<close> receives an arbitrary
  JSON value. An object is an association list of its members. A property read gives
  \<open>None\<close> for \<^verbatim>\<open>undefined\<close>.
\<close>

datatype json =
    JNull
  | JBool bool
  | JNumber rat
  | JString string
  | JArray "json list"
  | JObject "(string \<times> json) list"

text \<open>Reading the member \<open>name\<close> of a value. The names read by \<open>verifySettings\<close> are own
  properties of objects only, so every other value reads \<^verbatim>\<open>undefined\<close>. In the source a
  read from \<^verbatim>\<open>null\<close> or \<^verbatim>\<open>undefined\<close> throws: every read below but those from the settings
  value itself follows a check that the base is an object, and \<open>verifySettings\<close> handles
  the settings value \<^verbatim>\<open>null\<close> itself.\<close>

fun get :: "json option \<Rightarrow> string \<Rightarrow> json option" where
  "get (Some (JObject members)) name = map_of members name"
| "get _ name = None"

text \<open>The predicates of the check-types library that the source calls through
  \<^verbatim>\<open>check.verify\<close>: a positive number, an object (neither \<^verbatim>\<open>null\<close> nor an array), an array and
  a non-empty string. \<^verbatim>\<open>check.verify.p(thing, message)\<close> throws \<^verbatim>\<open>new Error(message)\<close> when the
  predicate fails.\<close>

fun positiveNumber :: "json option \<Rightarrow> bool" where
  "positiveNumber (Some (JNumber n)) = (0 < n)"
| "positiveNumber _ = False"

fun object :: "json option \<Rightarrow> bool" where
  "object (Some (JObject members)) = True"
| "object _ = False"

fun array :: "json option \<Rightarrow> bool" where
  "array (Some (JArray elements)) = True"
| "array _ = False"

fun unemptyString :: "json option \<Rightarrow> bool" where
  "unemptyString (Some (JString s)) = (s \<noteq> [])"
| "unemptyString _ = False"

definition verify :: "(json option \<Rightarrow> bool) \<Rightarrow> json option \<Rightarrow> string \<Rightarrow> error + unit" where
  "verify predicate thing message = (if predicate thing then Inr () else Inl (Error message))"

text \<open>The decimal digits of an array index, as string concatenation writes it.\<close>

fun show_nat :: "nat \<Rightarrow> string" where
  "show_nat n =
     (if n < 10 then [char_of (48 + n)]
      else show_nat (n div 10) @ [char_of (48 + n mod 10)])"

text \<open>\<^verbatim>\<open>forEach\<close> over a dense array with a callback that may throw: the first exception
  ends the loop.\<close>

fun forEach_from :: "nat \<Rightarrow> ('a \<Rightarrow> nat \<Rightarrow> error + unit) \<Rightarrow> 'a list \<Rightarrow> error + unit" where
  "forEach_from index callback [] = Inr ()"
| "forEach_from index callback (x # xs) =
     andThen (callback x index) (\<lambda>_. forEach_from (Suc index) callback xs)"

definition verifyColour :: "json \<Rightarrow> nat \<Rightarrow> error + unit" where
  "verifyColour colour index =
     andThen (verify object (Some colour)
                (''Invalid SVG colour ['' @ show_nat index @ '']'')) (\<lambda>_.
     andThen (verify unemptyString (get (Some colour) ''name'')
                (''Invalid SVG colour name ['' @ show_nat index @ '']'')) (\<lambda>_.
     andThen (verify unemptyString (get (Some colour) ''value'')
                (''Invalid SVG colour value ['' @ show_nat index @ '']'')) (\<lambda>_.
     verify unemptyString (get (Some colour) ''fg'')
                (''Invalid SVG foreground colour ['' @ show_nat index @ '']''))))"

definition verifySettings :: "json \<Rightarrow> error + unit" where
  "verifySettings settings =
     (if settings = JNull then Inl TypeError
      else
     andThen (verify positiveNumber (get (Some settings) ''width'') ''Invalid SVG width'') (\<lambda>_.
     andThen (verify object (get (Some settings) ''offset'') ''Invalid SVG offset'') (\<lambda>_.
     andThen (verify positiveNumber (get (get (Some settings) ''offset'') ''x'')
                ''Invalid SVG x offset'') (\<lambda>_.
     andThen (verify positiveNumber (get (get (Some settings) ''offset'') ''x'')
                ''Invalid SVG y offset'') (\<lambda>_.
     andThen (verify positiveNumber (get (Some settings) ''barHeight'')
                ''Invalid SVG bar height'') (\<lambda>_.
     andThen (verify positiveNumber (get (Some settings) ''padding'')
                ''Invalid SVG padding'') (\<lambda>_.
     andThen (verify array (get (Some settings) ''colours'') ''Invalid SVG colours'') (\<lambda>_.
     (case get (Some settings) ''colours'' of
        Some (JArray colours) \<Rightarrow>
          if length colours \<noteq> 6 then Inl (Error ''Incorrect number of SVG colours'')
          else forEach_from 0 verifyColour colours
      | _ \<Rightarrow> Inl TypeError)))))))))"

text \<open>Replacing, and removing, one member of an object; used to state what validation
  does to a settings document that differs from a valid one in a single field.\<close>

fun with_member :: "string \<Rightarrow> json \<Rightarrow> json \<Rightarrow> json" where
  "with_member name v (JObject members) = JObject (AList.update name v members)"
| "with_member name v j = j"

fun without_member :: "string \<Rightarrow> json \<Rightarrow> json" where
  "without_member name (JObject members) = JObject (AList.delete name members)"
| "without_member name j = j"

definition example_colour :: "string \<Rightarrow> json" where
  "example_colour name =
     JObject [(''name'', JString name), (''value'', JString ''#1f77b4''),
              (''fg'', JString ''#ffffff'')]"

definition example_colours :: "json list" where
  "example_colours =
     map example_colour
       [''blocked'', ''redirect'', ''dns'', ''connect'', ''request'', ''response'']"

definition example_settings :: json where
  "example_settings =
     JObject
       [(''width'', JNumber 960),
        (''offset'', JObject [(''x'', JNumber 10), (''y'', JNumber 20)]),
        (''barHeight'', JNumber 24),
        (''padding'', JNumber 2),
        (''colours'', JArray example_colours)]"

section \<open>Chart geometry\<close>

text \<open>
  The settings as the geometry functions read them, after validation: the four numeric
  fields are numbers. The fields the geometry does not read (\<^verbatim>\<open>offset.y\<close>, the colours, the
  derived fields) live in the record's extension.
\<close>

record settings =
  width :: rat
  offset_x :: rat
  barHeight :: rat
  padding :: rat

record tick =
  tick_x :: jsnum
  tick_height :: jsnum
  tick_value :: jsnum

text \<open>An array that may have holes: \<open>None\<close> is an index at which the array has no
  element. \<^verbatim>\<open>new Array(len)\<close> makes \<open>len\<close> holes, and throws a \<^verbatim>\<open>RangeError\<close> unless
  \<open>len\<close> is an integer from 0 to \<open>2^32 - 1\<close>. \<^verbatim>\<open>forEach\<close> visits the indices below the
  length the array had at the start, in order, and calls the callback only where the
  array has an element at that moment.\<close>

definition new_Array :: "jsnum \<Rightarrow> error + 'a option list" where
  "new_Array len =
     (case len of
        Fin q \<Rightarrow>
          if of_int \<lfloor>q\<rfloor> = q \<and> 0 \<le> q \<and> q < 2 ^ 32 then Inr (replicate (nat \<lfloor>q\<rfloor>) None)
          else Inl RangeError
      | _ \<Rightarrow> Inl RangeError)"

definition forEach ::
  "('a \<Rightarrow> nat \<Rightarrow> 'a option list \<Rightarrow> 'a option list) \<Rightarrow> 'a option list \<Rightarrow> 'a option list" where
  "forEach callback arr =
     fold (\<lambda>index a.
             if index < length a
             then (case a ! index of None \<Rightarrow> a | Some element \<Rightarrow> callback element index a)
             else a)
          [0..<length arr] arr"

text \<open>\<open>getSvgHeight\<close> is computed in doubles, each operation rounded: the fields of the
  settings are the doubles that the settings document was parsed to.\<close>

definition getSvgHeight :: "'a settings_scheme \<Rightarrow> normalized_resource list \<Rightarrow> jsnum" where
  "getSvgHeight settings resources =
     double_add
       (double_mul
          (double_add (Fin (of_nat (length resources))) (Fin 1))
          (double_add (Fin (barHeight settings)) (Fin (padding settings))))
       (Fin (offset_x settings))"

definition getMaximumValue :: "rat \<Rightarrow> normalized_resource \<Rightarrow> rat" where
  "getMaximumValue maximum resource =
     (let finish = n_start resource + n_duration resource
      in if finish > maximum then finish else maximum)"

definition getXPosition :: "jsnum \<Rightarrow> jsnum \<Rightarrow> jsnum \<Rightarrow> jsnum" where
  "getXPosition minimum pixelsPerUnit v =
     (if v = Fin 0 then Fin 0 else num_mul (num_sub v minimum) pixelsPerUnit)"

text \<open>\<open>getSvgTicks\<close>. The source assigns \<^verbatim>\<open>maximum\<close> and \<^verbatim>\<open>minimum\<close> twice; the later
  bindings below shadow the earlier ones, and \<open>getXPosition\<close> reads the rounded minimum as
  the closure of the source does. Reading \<^verbatim>\<open>resources[0].start\<close> of an empty list throws a
  \<^verbatim>\<open>TypeError\<close>.\<close>

definition getSvgTicks ::
  "'a settings_scheme \<Rightarrow> normalized_resource list \<Rightarrow> error + tick option list" where
  "getSvgTicks settings resources =
     (case resources of
        [] \<Rightarrow> Inl TypeError
      | first # _ \<Rightarrow>
          (let minimum = Fin (n_start first);
               maximum = Fin (foldl getMaximumValue 0 resources);
               step = Math_ceil (num_div (num_sub maximum minimum) (Fin 5));
               maximum = num_add maximum (num_sub step (num_mod maximum step));
               minimum = num_sub minimum (num_mod minimum step);
               difference = num_sub maximum minimum;
               width = Fin (width settings - offset_x settings);
               height = Fin (of_nat (length resources) * (barHeight settings + padding settings));
               pixelsPerUnit = num_div width difference
           in andThen (new_Array (num_div difference step)) (\<lambda>ticks.
                Inr (forEach
                       (\<lambda>t index ticks.
                          let v = num_mul (Fin (of_nat index)) step
                          in ticks[index :=
                               Some \<lparr>tick_x = getXPosition minimum pixelsPerUnit v,
                                     tick_height = height,
                                     tick_value = v\<rparr>])
                       ticks))))"

text \<open>\<open>mapSvgResource\<close> has an empty body: it returns \<^verbatim>\<open>undefined\<close>.\<close>

definition mapSvgResource :: "'a settings_scheme \<Rightarrow> normalized_resource \<Rightarrow> nat \<Rightarrow> unit" where
  "mapSvgResource settings resource index = ()"

record 'a svg =
  svg_settings :: "'a settings_scheme"
  svg_height :: jsnum
  svg_ticks :: "tick option list"
  svg_resources :: "unit list"

definition customiseSvgSettings ::
  "'a settings_scheme \<Rightarrow> normalized_resource list \<Rightarrow> error + 'a svg" where
  "customiseSvgSettings settings resources =
     (let height = getSvgHeight settings resources
      in andThen (getSvgTicks settings resources) (\<lambda>ticks.
           Inr \<lparr>svg_settings = settings,
                svg_height = height,
                svg_ticks = ticks,
                svg_resources =
                  map (\<lambda>(resource, index). mapSvgResource settings resource index)
                      (zip resources [0..<length resources])\<rparr>))"

section \<open>The mapping function\<close>

text \<open>
  The \<^verbatim>\<open>restiming\<close> field of a beacon payload: absent, a value that is not an array, or an
  array of resource events. The compiled template is a parameter of \<open>map_svg\<close>; it may
  throw.
\<close>

datatype restiming_value =
    RUndefined
  | RNull
  | RBool bool
  | RNumber rat
  | RString string
  | RObject "(string \<times> json) list"
  | RArray "raw_resource list"

record beacon =
  restiming :: restiming_value

record 'a render_model =
  model_svg :: "'a svg"
  model_details :: "normalized_resource list"

fun Array_isArray :: "restiming_value \<Rightarrow> bool" where
  "Array_isArray (RArray resources) = True"
| "Array_isArray _ = False"

fun elements :: "restiming_value \<Rightarrow> raw_resource list" where
  "elements (RArray resources) = resources"
| "elements _ = []"

fun array_map :: "('a \<Rightarrow> error + 'b) \<Rightarrow> 'a list \<Rightarrow> error + 'b list" where
  "array_map f [] = Inr []"
| "array_map f (x # xs) =
     andThen (f x) (\<lambda>y. andThen (array_map f xs) (\<lambda>ys. Inr (y # ys)))"

definition map_svg ::
  "('a render_model \<Rightarrow> error + string) \<Rightarrow> 'a settings_scheme \<Rightarrow> 'b beacon_scheme \<Rightarrow> string
     \<Rightarrow> error + string" where
  "map_svg template settings data referer =
     (if \<not> Array_isArray (restiming data) then Inr ''''
      else
        andThen (array_map (mapResource referer) (elements (restiming data))) (\<lambda>resources.
        andThen (customiseSvgSettings settings resources) (\<lambda>svg.
          template \<lparr>model_svg = svg, model_details = resources\<rparr>)))"

text \<open>Settings and resources for the examples of the geometry: a normalized resource that
  starts at \<open>start\<close> and lasts \<open>duration\<close>.\<close>

definition example_geometry :: settings where
  "example_geometry = \<lparr>width = 960, offset_x = 10, barHeight = 24, padding = 2\<rparr>"

definition resource_spanning :: "rat \<Rightarrow> rat \<Rightarrow> normalized_resource" where
  "resource_spanning start duration =
     \<lparr>n_page = ''http://example.com/'', n_name = ''http://example.com/a.js'',
      n_type = ''script'', n_start = start, n_duration = duration, n_timings = []\<rparr>"


section \<open>The duration the specification states\<close>

text \<open>The maximum of \<open>fetchStart - start\<close> and of \<open>end - start\<close> over the events present in
  the \<^verbatim>\<open>events\<close> object of a resource.\<close>

definition total_duration :: "raw_resource \<Rightarrow> rat" where
  "total_duration resource =
     Max (insert (ts_fetchStart (res_timestamps resource) - ts_start (res_timestamps resource))
            ((\<lambda>e. ev_end e - ts_start (res_timestamps resource)) `
               ran (map_of (res_events resource))))"

section \<open>Properties of the resource mapper\<close>

lemma getResourceDuration_present:
  "map_of (res_events r) k = Some ev \<Longrightarrow>
     getResourceDuration r d k = Inr (max d (ev_end ev - ts_start (res_timestamps r)))"
  by (simp add: getResourceDuration_def Let_def max_def)

lemma getResourceDuration_absent:
  "map_of (res_events r) k = None \<Longrightarrow> getResourceDuration r d k = Inl TypeError"
  by (simp add: getResourceDuration_def)

lemma reduce_getResourceDuration:
  "reduce (getResourceDuration r) d ks =
     (if set ks \<subseteq> dom (map_of (res_events r))
      then Inr (Max (insert d ((\<lambda>k. ev_end (the (map_of (res_events r) k)) - ts_start (res_timestamps r)) ` set ks)))
      else Inl TypeError)"
proof (induction ks arbitrary: d)
  case Nil
  show ?case by simp
next
  case (Cons k ks)
  show ?case
  proof (cases "map_of (res_events r) k")
    case None
    then show ?thesis
      by (auto simp: getResourceDuration_absent andThen_def)
  next
    case (Some ev)
    let ?f = "\<lambda>k. ev_end (the (map_of (res_events r) k)) - ts_start (res_timestamps r)"
    have "Max (insert (max d (?f k)) (?f ` set ks)) = Max (insert d (insert (?f k) (?f ` set ks)))"
      by (cases "set ks = {}") (simp_all add: max.assoc)
    with Some show ?thesis
      by (auto simp: getResourceDuration_present andThen_def Cons.IH)
  qed
qed



lemma image_the_dom: "(\<lambda>k. g (the (m k))) ` dom m = g ` ran m"
  by (force simp: ran_def dom_def image_iff)

lemma reduce_all_keys:
  "reduce (getResourceDuration r) d (Object_keys (res_events r)) =
     Inr (Max (insert d ((\<lambda>e. ev_end e - ts_start (res_timestamps r)) ` ran (map_of (res_events r)))))"
  by (simp add: reduce_getResourceDuration Object_keys_def dom_map_of_conv_image_fst image_the_dom [symmetric])


lemma mapResource_eq:
  "mapResource referer resource =
     Inr \<lparr>n_page = referer,
          n_name = res_name resource,
          n_type = res_type resource,
          n_start = ts_start (res_timestamps resource),
          n_duration = total_duration resource,
          n_timings =
            [\<lparr>t_name = ''blocked'', t_start = ts_start (res_timestamps resource),
              t_duration = NaN, t_blocked = True\<rparr>,
             mapEvent ''redirect'' resource,
             mapEvent ''dns'' resource,
             mapEvent ''connect'' resource,
             mapRequestTiming resource,
             mapEvent ''response'' resource]\<rparr>"
  unfolding mapResource_def reduce_all_keys total_duration_def [symmetric]
  by (simp add: andThen_def num_sub_def)


lemma finite_ran_map_of: "finite (ran (map_of xs))"
  by (simp add: finite_ran finite_dom_map_of)

lemma total_duration_lower:
  "ts_fetchStart (res_timestamps resource) - ts_start (res_timestamps resource) \<le> total_duration resource"
  unfolding total_duration_def by (simp add: finite_ran_map_of)

lemma total_duration_upper:
  "e \<in> ran (map_of (res_events resource)) \<Longrightarrow>
     ev_end e - ts_start (res_timestamps resource) \<le> total_duration resource"
  unfolding total_duration_def
  by (rule Max_ge) (simp_all add: finite_ran_map_of)

lemma example_ran:
  "ran (map_of (res_events example_resource)) =
     {\<lparr>ev_start = 105, ev_end = 115\<rparr>, \<lparr>ev_start = 150, ev_end = 200\<rparr>}"
  by (simp add: example_resource_def ran_map_upd insert_commute)

lemma example_total_duration: "total_duration example_resource = 100"
  unfolding total_duration_def example_ran by (simp add: example_resource_def)

text \<open>
  Claim C1. For every raw resource event, \<open>mapResource\<close> returns a resource whose duration
  is the maximum of \<open>fetchStart - start\<close> and of \<open>end - start\<close> over the events present in
  \<^verbatim>\<open>events\<close>; so the duration is at least \<open>fetchStart - start\<close> and at least \<open>end - start\<close>
  of every present event. On the example of the specification the duration is 100.
\<close>

theorem mapResource_duration_is_maximum:
  "\<exists>n. mapResource referer resource = Inr n \<and>
     n_duration n =
       Max (insert (ts_fetchStart (res_timestamps resource) - ts_start (res_timestamps resource))
              ((\<lambda>e. ev_end e - ts_start (res_timestamps resource)) `
                 ran (map_of (res_events resource)))) \<and>
     ts_fetchStart (res_timestamps resource) - ts_start (res_timestamps resource) \<le> n_duration n \<and>
     (\<forall>e \<in> ran (map_of (res_events resource)).
        ev_end e - ts_start (res_timestamps resource) \<le> n_duration n) \<and>
     (\<exists>m. mapResource referer example_resource = Inr m \<and> n_duration m = 100)"
proof -
  have "n_duration (projr (mapResource referer resource)) = total_duration resource"
    by (simp add: mapResource_eq)
  then show ?thesis
    using total_duration_lower [of resource] total_duration_upper [of _ resource]
    by (simp add: mapResource_eq total_duration_def [symmetric] example_total_duration)
qed

text \<open>
  Claim C1, at the example of the specification: the maximum of 20, 15 and 100.
\<close>

theorem mapResource_duration_is_maximum_witness:
  "\<exists>n. mapResource ''http://example.com/'' example_resource = Inr n \<and>
     n_duration n = Max {120 - 100, 115 - 100, 200 - 100} \<and>
     120 - 100 \<le> n_duration n \<and> 115 - 100 \<le> n_duration n \<and> 200 - 100 \<le> n_duration n \<and>
     n_duration n = 100"
  using mapResource_duration_is_maximum [of "''http://example.com/''" example_resource]
  unfolding example_ran
  by (auto simp: example_resource_def)


lemma blocked_duration_NaN:
  "mapResource referer resource = Inr n \<Longrightarrow> t_duration (n_timings n ! 0) = NaN"
  by (auto simp: mapResource_eq)

text \<open>
  Claim C3 says that the first segment, \<^verbatim>\<open>blocked\<close>, has the duration of the resource. The
  source hands \<open>mapTiming\<close> the object \<^verbatim>\<open>{start, duration}\<close>, and \<open>mapTiming\<close> computes the
  duration of a segment as \<^verbatim>\<open>event.end - event.start\<close>: the object has no \<^verbatim>\<open>end\<close>, so the
  duration of the segment is \<open>NaN\<close>. On the example of the specification the resource has
  duration 100 and its \<^verbatim>\<open>blocked\<close> segment has start 100, the flag, and duration \<open>NaN\<close>.
\<close>

theorem blocked_segment_duration_is_NaN:
  "\<exists>n. mapResource ''http://example.com/'' example_resource = Inr n \<and>
     n_duration n = 100 \<and>
     n_timings n ! 0 = \<lparr>t_name = ''blocked'', t_start = 100, t_duration = NaN, t_blocked = True\<rparr> \<and>
     t_duration (n_timings n ! 0) \<noteq> Fin (n_duration n)"
  by (simp add: mapResource_eq example_total_duration) (simp add: example_resource_def)

lemma mapTiming_None:
  "mapTiming name None = \<lparr>t_name = name, t_start = 0, t_duration = Fin 0, t_blocked = False\<rparr>"
  by (simp add: num_sub_def)

lemma mapEvent_absent:
  "map_of (res_events resource) name = None \<Longrightarrow>
     mapEvent name resource = \<lparr>t_name = name, t_start = 0, t_duration = Fin 0, t_blocked = False\<rparr>"
  by (simp add: mapEvent_def mapTiming_None del: mapTiming.simps)

lemma mapTiming_name: "t_name (mapTiming name event) = name"
  by (cases event) simp_all

lemma mapEvent_name: "t_name (mapEvent name resource) = name"
  by (simp add: mapEvent_def mapTiming_name del: mapTiming.simps)

lemma mapRequestTiming_name: "t_name (mapRequestTiming resource) = ''request''"
  by (simp add: mapRequestTiming_def mapTiming_name del: mapTiming.simps)

text \<open>
  Claim C2. The timings of the resource returned by \<open>mapResource\<close> are six segments named
  blocked, redirect, dns, connect, request, response in this order; where one of redirect,
  dns, connect, response is absent from \<^verbatim>\<open>events\<close>, its segment has start 0 and duration 0.
\<close>

theorem timings_six_in_fixed_order:
  "\<exists>n. mapResource referer resource = Inr n \<and>
     length (n_timings n) = 6 \<and>
     map t_name (n_timings n) =
       [''blocked'', ''redirect'', ''dns'', ''connect'', ''request'', ''response''] \<and>
     (map_of (res_events resource) ''redirect'' = None \<longrightarrow>
        n_timings n ! 1 =
          \<lparr>t_name = ''redirect'', t_start = 0, t_duration = Fin 0, t_blocked = False\<rparr>) \<and>
     (map_of (res_events resource) ''dns'' = None \<longrightarrow>
        n_timings n ! 2 =
          \<lparr>t_name = ''dns'', t_start = 0, t_duration = Fin 0, t_blocked = False\<rparr>) \<and>
     (map_of (res_events resource) ''connect'' = None \<longrightarrow>
        n_timings n ! 3 =
          \<lparr>t_name = ''connect'', t_start = 0, t_duration = Fin 0, t_blocked = False\<rparr>) \<and>
     (map_of (res_events resource) ''response'' = None \<longrightarrow>
        n_timings n ! 5 =
          \<lparr>t_name = ''response'', t_start = 0, t_duration = Fin 0, t_blocked = False\<rparr>)"
  by (simp add: mapResource_eq mapEvent_name mapRequestTiming_name mapEvent_absent)

text \<open>
  Claim C2, at the example of the specification with its events removed: all four event
  segments are placeholders.
\<close>

theorem timings_six_in_fixed_order_witness:
  "\<exists>n. mapResource ''http://example.com/'' (example_resource\<lparr>res_events := []\<rparr>) = Inr n \<and>
     length (n_timings n) = 6 \<and>
     map t_name (n_timings n) =
       [''blocked'', ''redirect'', ''dns'', ''connect'', ''request'', ''response''] \<and>
     map_of (res_events (example_resource\<lparr>res_events := []\<rparr>)) ''redirect'' = None \<and>
     n_timings n ! 1 =
       \<lparr>t_name = ''redirect'', t_start = 0, t_duration = Fin 0, t_blocked = False\<rparr> \<and>
     map_of (res_events (example_resource\<lparr>res_events := []\<rparr>)) ''dns'' = None \<and>
     n_timings n ! 2 =
       \<lparr>t_name = ''dns'', t_start = 0, t_duration = Fin 0, t_blocked = False\<rparr> \<and>
     map_of (res_events (example_resource\<lparr>res_events := []\<rparr>)) ''connect'' = None \<and>
     n_timings n ! 3 =
       \<lparr>t_name = ''connect'', t_start = 0, t_duration = Fin 0, t_blocked = False\<rparr> \<and>
     map_of (res_events (example_resource\<lparr>res_events := []\<rparr>)) ''response'' = None \<and>
     n_timings n ! 5 =
       \<lparr>t_name = ''response'', t_start = 0, t_duration = Fin 0, t_blocked = False\<rparr>"
proof -
  have absent: "map_of (res_events (example_resource\<lparr>res_events := []\<rparr>)) name = None" for name
    by simp
  from timings_six_in_fixed_order
         [of "''http://example.com/''" "example_resource\<lparr>res_events := []\<rparr>"] absent
  show ?thesis
    by (simp only: simp_thms)
qed

lemma mapRequestTiming_eq:
  "mapRequestTiming resource =
     (case ts_requestStart (res_timestamps resource) of
        None \<Rightarrow> \<lparr>t_name = ''request'', t_start = 0, t_duration = Fin 0, t_blocked = False\<rparr>
      | Some q \<Rightarrow>
          if q = 0 then \<lparr>t_name = ''request'', t_start = 0, t_duration = Fin 0, t_blocked = False\<rparr>
          else (case map_of (res_events resource) ''response'' of
                  None \<Rightarrow> \<lparr>t_name = ''request'', t_start = 0, t_duration = Fin 0, t_blocked = False\<rparr>
                | Some response \<Rightarrow>
                    \<lparr>t_name = ''request'', t_start = q,
                     t_duration = Fin (ev_start response - q), t_blocked = False\<rparr>))"
  by (simp add: mapRequestTiming_def num_sub_def split: option.split)

text \<open>
  Claim C4. The request segment (index 4) differs from the placeholder with start 0 and
  duration 0 exactly when \<^verbatim>\<open>timestamps.requestStart\<close> is truthy (present and not zero) and
  \<^verbatim>\<open>events.response\<close> is present; then its start is \<^verbatim>\<open>requestStart\<close> and its duration is
  \<^verbatim>\<open>events.response.start - requestStart\<close>. On the example of the specification the segment
  has start 140 and duration 10.
\<close>

theorem request_segment_materialised_iff:
  "\<exists>n. mapResource referer resource = Inr n \<and>
     ((n_timings n ! 4 \<noteq>
         \<lparr>t_name = ''request'', t_start = 0, t_duration = Fin 0, t_blocked = False\<rparr>) =
      ((\<exists>q. ts_requestStart (res_timestamps resource) = Some q \<and> q \<noteq> 0) \<and>
       map_of (res_events resource) ''response'' \<noteq> None)) \<and>
     (\<forall>q response.
        ts_requestStart (res_timestamps resource) = Some q \<and> q \<noteq> 0 \<and>
        map_of (res_events resource) ''response'' = Some response \<longrightarrow>
        n_timings n ! 4 =
          \<lparr>t_name = ''request'', t_start = q, t_duration = Fin (ev_start response - q),
           t_blocked = False\<rparr>) \<and>
     (\<exists>m. mapResource referer example_resource = Inr m \<and>
          t_start (n_timings m ! 4) = 140 \<and> t_duration (n_timings m ! 4) = Fin 10)"
proof -
  have ex: "mapRequestTiming example_resource =
      \<lparr>t_name = ''request'', t_start = 140, t_duration = Fin 10, t_blocked = False\<rparr>"
    by (simp add: mapRequestTiming_eq example_resource_def)
  show ?thesis
    by (simp add: mapResource_eq ex) (auto simp: mapRequestTiming_eq split: option.splits)
qed

text \<open>
  Claim C4, at the example of the specification: requestStart 140, response from 150.
\<close>

theorem request_segment_materialised_iff_witness:
  "\<exists>n. mapResource ''http://example.com/'' example_resource = Inr n \<and>
     ts_requestStart (res_timestamps example_resource) = Some 140 \<and>
     map_of (res_events example_resource) ''response'' = Some \<lparr>ev_start = 150, ev_end = 200\<rparr> \<and>
     n_timings n ! 4 \<noteq>
       \<lparr>t_name = ''request'', t_start = 0, t_duration = Fin 0, t_blocked = False\<rparr> \<and>
     n_timings n ! 4 =
       \<lparr>t_name = ''request'', t_start = 140, t_duration = Fin (150 - 140), t_blocked = False\<rparr>"
proof -
  have rs: "ts_requestStart (res_timestamps example_resource) = Some 140"
    by (simp add: example_resource_def)
  have resp: "map_of (res_events example_resource) ''response'' = Some \<lparr>ev_start = 150, ev_end = 200\<rparr>"
    by (simp add: example_resource_def)
  from request_segment_materialised_iff [of "''http://example.com/''" example_resource] rs resp
  show ?thesis by auto
qed

text \<open>
  Claim C10. Folding \<open>getResourceDuration\<close> from \<open>fetchStart - start\<close> over any permutation
  of the keys of \<^verbatim>\<open>events\<close> gives the duration that \<open>mapResource\<close> computes.
\<close>

theorem duration_independent_of_key_order:
  "mset ks = mset (Object_keys (res_events resource)) \<Longrightarrow>
     \<exists>n. mapResource referer resource = Inr n \<and>
       reduce (getResourceDuration resource)
         (ts_fetchStart (res_timestamps resource) - ts_start (res_timestamps resource)) ks =
       Inr (n_duration n)"
proof -
  assume "mset ks = mset (Object_keys (res_events resource))"
  then have "set ks = set (Object_keys (res_events resource))"
    by (rule mset_eq_setD)
  then have "reduce (getResourceDuration resource)
         (ts_fetchStart (res_timestamps resource) - ts_start (res_timestamps resource)) ks =
       reduce (getResourceDuration resource)
         (ts_fetchStart (res_timestamps resource) - ts_start (res_timestamps resource))
         (Object_keys (res_events resource))"
    by (simp only: reduce_getResourceDuration)
  then show ?thesis
    by (simp add: mapResource_eq reduce_all_keys total_duration_def)
qed

text \<open>
  Claim C10, at the example of the specification with its two keys in both orders.
\<close>

theorem duration_independent_of_key_order_witness:
  "mset [''response'', ''dns''] = mset (Object_keys (res_events example_resource)) \<and>
   (\<exists>n. mapResource ''http://example.com/'' example_resource = Inr n \<and>
      reduce (getResourceDuration example_resource) (120 - 100) [''response'', ''dns''] =
        Inr (n_duration n) \<and>
      reduce (getResourceDuration example_resource) (120 - 100) [''dns'', ''response''] =
        Inr (n_duration n))"
proof -
  have p: "mset [''response'', ''dns''] = mset (Object_keys (res_events example_resource))"
    by (simp add: example_resource_def Object_keys_def)
  have q: "mset [''dns'', ''response''] = mset (Object_keys (res_events example_resource))"
    by (simp add: example_resource_def Object_keys_def)
  have ts: "ts_fetchStart (res_timestamps example_resource) - ts_start (res_timestamps example_resource) = 120 - 100"
    by (simp add: example_resource_def)
  from duration_independent_of_key_order [OF p, of "''http://example.com/''"]
       duration_independent_of_key_order [OF q, of "''http://example.com/''"] p
  show ?thesis unfolding ts by auto
qed

section \<open>Properties of the settings validation\<close>

lemma verifySettings_object:
  "verifySettings (JObject ms) =
     (if \<not> positiveNumber (map_of ms ''width'') then Inl (Error ''Invalid SVG width'')
      else if \<not> object (map_of ms ''offset'') then Inl (Error ''Invalid SVG offset'')
      else if \<not> positiveNumber (get (map_of ms ''offset'') ''x'') then Inl (Error ''Invalid SVG x offset'')
      else if \<not> positiveNumber (map_of ms ''barHeight'') then Inl (Error ''Invalid SVG bar height'')
      else if \<not> positiveNumber (map_of ms ''padding'') then Inl (Error ''Invalid SVG padding'')
      else if \<not> array (map_of ms ''colours'') then Inl (Error ''Invalid SVG colours'')
      else (case map_of ms ''colours'' of
              Some (JArray colours) \<Rightarrow>
                if length colours \<noteq> 6 then Inl (Error ''Incorrect number of SVG colours'')
                else forEach_from 0 verifyColour colours
            | _ \<Rightarrow> Inl TypeError))"
  by (simp add: verifySettings_def verify_def andThen_def)

lemma verifySettings_not_object:
  "\<not> object (Some s) \<Longrightarrow> verifySettings s \<noteq> Inr ()"
  by (cases s) (simp_all add: verifySettings_def verify_def andThen_def)

lemma array_cases: "array v \<Longrightarrow> \<exists>cs. v = Some (JArray cs)"
  by (cases v rule: array.cases) simp_all

lemma object_cases: "object v \<Longrightarrow> \<exists>ms. v = Some (JObject ms)"
  by (cases v rule: object.cases) simp_all

lemma verifySettings_valid:
  assumes "verifySettings s = Inr ()"
  obtains ms cs where "s = JObject ms"
    "positiveNumber (map_of ms ''width'')" "object (map_of ms ''offset'')"
    "positiveNumber (get (map_of ms ''offset'') ''x'')"
    "positiveNumber (map_of ms ''barHeight'')" "positiveNumber (map_of ms ''padding'')"
    "map_of ms ''colours'' = Some (JArray cs)" "length cs = 6"
    "forEach_from 0 verifyColour cs = Inr ()"
proof -
  from assms obtain ms where s: "s = JObject ms"
    using verifySettings_not_object [of s] object_cases [of "Some s"] by auto
  from assms have a: "array (map_of ms ''colours'')"
    unfolding s verifySettings_object by (simp split: if_splits)
  then obtain cs where cs: "map_of ms ''colours'' = Some (JArray cs)"
    using array_cases by blast
  from assms show thesis
    unfolding s verifySettings_object cs
    by (intro that [of ms cs]) (simp_all add: s cs split: if_splits)
qed


lemma get_with_member:
  "get (Some (with_member k v (JObject ms))) k' = (if k' = k then Some v else map_of ms k')"
  by (simp add: update_conv')

lemma verifySettings_with_member:
  "verifySettings (with_member k v (JObject ms)) =
     verifySettings (JObject (AList.update k v ms))"
  by simp

lemma forEach_from_update:
  assumes "forEach_from k f cs = Inr ()" "i < length cs" "f c (k + i) = Inl e"
  shows "forEach_from k f (cs[i := c]) = Inl e"
  using assms
proof (induction cs arbitrary: k i)
  case Nil
  then show ?case by simp
next
  case (Cons x xs)
  from Cons.prems(1) have x: "f x k = Inr ()" and xs: "forEach_from (Suc k) f xs = Inr ()"
    by (auto simp: andThen_def split: sum.splits)
  show ?case
  proof (cases i)
    case 0
    with Cons.prems show ?thesis by (simp add: andThen_def)
  next
    case (Suc j)
    with Cons.prems have "forEach_from (Suc k) f (xs[j := c]) = Inl e"
      by (intro Cons.IH [OF xs]) simp_all
    with Suc x show ?thesis by (simp add: andThen_def)
  qed
qed

lemma forEach_from_nth:
  "forEach_from k f cs = Inr () \<Longrightarrow> i < length cs \<Longrightarrow> f (cs ! i) (k + i) = Inr ()"
proof (induction cs arbitrary: k i)
  case Nil
  then show ?case by simp
next
  case (Cons x xs)
  from Cons.prems(1) have x: "f x k = Inr ()" and xs: "forEach_from (Suc k) f xs = Inr ()"
    by (auto simp: andThen_def split: sum.splits)
  show ?case
  proof (cases i)
    case 0
    with x show ?thesis by simp
  next
    case (Suc j)
    with Cons.prems Cons.IH [OF xs, of j] show ?thesis by simp
  qed
qed

lemma verifyColour_without_fg:
  assumes "verifyColour c i = Inr ()"
  shows "verifyColour (without_member ''fg'' c) i =
           Inl (Error (''Invalid SVG foreground colour ['' @ show_nat i @ '']''))"
proof -
  from assms obtain ms where c: "c = JObject ms"
    by (cases c) (simp_all add: verifyColour_def verify_def andThen_def)
  from assms show ?thesis
    unfolding c verifyColour_def verify_def andThen_def
    by (simp add: delete_conv' split: if_splits del: show_nat.simps)
qed


text \<open>
  Claim C6. Let a settings document be valid. Setting its width to 0 or to -1, replacing
  its offset by a value that is not an object (or removing it), setting its bar height to
  0, giving it 5 or 7 colours, or removing \<^verbatim>\<open>fg\<close> from one of its colours makes
  \<open>verifySettings\<close> throw, so that nothing is returned, and the message of the error names
  the field. Both positivity checks of the offset read \<^verbatim>\<open>offset.x\<close>: whatever \<^verbatim>\<open>offset.y\<close> is
  replaced by, and also when it is removed, the document stays valid.
\<close>

theorem verifySettings_rejects:
  assumes valid: "verifySettings s = Inr ()"
  shows
    "verifySettings (with_member ''width'' (JNumber 0) s) = Inl (Error ''Invalid SVG width'') \<and>
     verifySettings (with_member ''width'' (JNumber (- 1)) s) = Inl (Error ''Invalid SVG width'') \<and>
     (\<not> object (Some v) \<longrightarrow>
        verifySettings (with_member ''offset'' v s) = Inl (Error ''Invalid SVG offset'')) \<and>
     verifySettings (without_member ''offset'' s) = Inl (Error ''Invalid SVG offset'') \<and>
     verifySettings (with_member ''barHeight'' (JNumber 0) s) =
        Inl (Error ''Invalid SVG bar height'') \<and>
     (length entries = 5 \<or> length entries = 7 \<longrightarrow>
        verifySettings (with_member ''colours'' (JArray entries) s) =
          Inl (Error ''Incorrect number of SVG colours'')) \<and>
     (\<forall>colours i.
        get (Some s) ''colours'' = Some (JArray colours) \<and> i < length colours \<longrightarrow>
        verifySettings
          (with_member ''colours'' (JArray (colours[i := without_member ''fg'' (colours ! i)])) s) =
          Inl (Error (''Invalid SVG foreground colour ['' @ show_nat i @ '']''))) \<and>
     (\<forall>offset y.
        get (Some s) ''offset'' = Some offset \<longrightarrow>
        verifySettings (with_member ''offset'' (with_member ''y'' y offset) s) = Inr () \<and>
        verifySettings (with_member ''offset'' (without_member ''y'' offset) s) = Inr ())"
proof -
  from valid obtain ms cs where s: "s = JObject ms"
    and width: "positiveNumber (map_of ms ''width'')"
    and offset: "object (map_of ms ''offset'')"
    and x: "positiveNumber (get (map_of ms ''offset'') ''x'')"
    and barHeight: "positiveNumber (map_of ms ''barHeight'')"
    and padding: "positiveNumber (map_of ms ''padding'')"
    and cs: "map_of ms ''colours'' = Some (JArray cs)" "length cs = 6"
    and each: "forEach_from 0 verifyColour cs = Inr ()"
    by (rule verifySettings_valid)
  note facts = width offset x barHeight padding cs each
  have w0: "verifySettings (with_member ''width'' (JNumber 0) s) =
      Inl (Error ''Invalid SVG width'')"
    unfolding s with_member.simps verifySettings_object by (simp add: update_conv')
  have w1: "verifySettings (with_member ''width'' (JNumber (- 1)) s) =
      Inl (Error ''Invalid SVG width'')"
    unfolding s with_member.simps verifySettings_object by (simp add: update_conv')
  have off1: "verifySettings (with_member ''offset'' v s) = Inl (Error ''Invalid SVG offset'')"
    if "\<not> object (Some v)"
    unfolding s with_member.simps verifySettings_object
    using that width by (simp add: update_conv')
  have off2: "verifySettings (without_member ''offset'' s) = Inl (Error ''Invalid SVG offset'')"
    unfolding s without_member.simps verifySettings_object
    using width by (simp add: delete_conv')
  have bar: "verifySettings (with_member ''barHeight'' (JNumber 0) s) =
      Inl (Error ''Invalid SVG bar height'')"
    unfolding s with_member.simps verifySettings_object
    using width offset x by (simp add: update_conv')
  have count: "verifySettings (with_member ''colours'' (JArray entries) s) =
      Inl (Error ''Incorrect number of SVG colours'')"
    if "length entries = 5 \<or> length entries = 7"
    unfolding s with_member.simps verifySettings_object
    using that width offset x barHeight padding by (auto simp add: update_conv')
  have fg: "verifySettings
          (with_member ''colours'' (JArray (colours[i := without_member ''fg'' (colours ! i)])) s) =
          Inl (Error (''Invalid SVG foreground colour ['' @ show_nat i @ '']''))"
    if "get (Some s) ''colours'' = Some (JArray colours)" "i < length colours" for colours i
  proof -
    from that(1) cs have eq: "colours = cs"
      by (simp add: s)
    from each that(2) have "verifyColour (cs ! i) (0 + i) = Inr ()"
      unfolding eq by (rule forEach_from_nth)
    then have "verifyColour (without_member ''fg'' (cs ! i)) (0 + i) =
        Inl (Error (''Invalid SVG foreground colour ['' @ show_nat i @ '']''))"
      by (simp only: add_0 verifyColour_without_fg)
    with each that(2)
    have "forEach_from 0 verifyColour (cs[i := without_member ''fg'' (cs ! i)]) =
        Inl (Error (''Invalid SVG foreground colour ['' @ show_nat i @ '']''))"
      unfolding eq by (intro forEach_from_update)
    then show ?thesis
      unfolding s with_member.simps verifySettings_object eq
      using width offset x barHeight padding cs(2)
      by (simp add: update_conv' del: show_nat.simps)
  qed
  have y: "verifySettings (with_member ''offset'' (with_member ''y'' y' offset') s) = Inr () \<and>
        verifySettings (with_member ''offset'' (without_member ''y'' offset') s) = Inr ()"
    if "get (Some s) ''offset'' = Some offset'" for offset' y'
  proof -
    from that offset obtain oms where o: "offset' = JObject oms" "map_of ms ''offset'' = Some (JObject oms)"
      using object_cases [of "map_of ms ''offset''"] by (auto simp: s)
    from x have x': "positiveNumber (map_of oms ''x'')"
      by (simp add: o)
    show ?thesis
      unfolding s o with_member.simps without_member.simps verifySettings_object
      using width x' barHeight padding cs each
      by (simp add: update_conv' delete_conv')
  qed
  from w0 w1 off1 off2 bar count fg y show ?thesis
    by blast
qed



text \<open>
  Claim C6, at the example settings: width 960, offset (10, 20), bar height 24, padding 2
  and six colours.
\<close>

theorem verifySettings_rejects_witness:
  "verifySettings example_settings = Inr () \<and>
   verifySettings (with_member ''width'' (JNumber 0) example_settings) =
     Inl (Error ''Invalid SVG width'') \<and>
   verifySettings (with_member ''width'' (JNumber (- 1)) example_settings) =
     Inl (Error ''Invalid SVG width'') \<and>
   \<not> object (Some (JNumber 10)) \<and>
   verifySettings (with_member ''offset'' (JNumber 10) example_settings) =
     Inl (Error ''Invalid SVG offset'') \<and>
   verifySettings (with_member ''barHeight'' (JNumber 0) example_settings) =
     Inl (Error ''Invalid SVG bar height'') \<and>
   length (take 5 example_colours) = 5 \<and>
   verifySettings (with_member ''colours'' (JArray (take 5 example_colours)) example_settings) =
     Inl (Error ''Incorrect number of SVG colours'') \<and>
   length (example_colour ''extra'' # example_colours) = 7 \<and>
   verifySettings
     (with_member ''colours'' (JArray (example_colour ''extra'' # example_colours))
        example_settings) =
     Inl (Error ''Incorrect number of SVG colours'') \<and>
   get (Some example_settings) ''colours'' = Some (JArray example_colours) \<and>
   2 < length example_colours \<and>
   verifySettings
     (with_member ''colours''
        (JArray (example_colours[2 := without_member ''fg'' (example_colours ! 2)]))
        example_settings) =
     Inl (Error ''Invalid SVG foreground colour [2]'') \<and>
   get (Some example_settings) ''offset'' =
     Some (JObject [(''x'', JNumber 10), (''y'', JNumber 20)]) \<and>
   verifySettings
     (with_member ''offset''
        (with_member ''y'' (JNumber (- 5)) (JObject [(''x'', JNumber 10), (''y'', JNumber 20)]))
        example_settings) = Inr () \<and>
   verifySettings
     (with_member ''offset''
        (without_member ''y'' (JObject [(''x'', JNumber 10), (''y'', JNumber 20)]))
        example_settings) = Inr ()"
proof -
  have valid: "verifySettings example_settings = Inr ()"
    by code_simp
  have v: "\<not> object (Some (JNumber 10))"
    by simp
  have five: "length (take 5 example_colours) = 5"
    and seven: "length (example_colour ''extra'' # example_colours) = 7"
    and two: "2 < length example_colours"
    by (simp_all add: example_colours_def)
  have colours: "get (Some example_settings) ''colours'' = Some (JArray example_colours)"
    by (simp add: example_settings_def)
  have offset: "get (Some example_settings) ''offset'' =
      Some (JObject [(''x'', JNumber 10), (''y'', JNumber 20)])"
    by (simp add: example_settings_def)
  have digit: "show_nat 2 = ''2''"
    by code_simp
  from verifySettings_rejects [OF valid, of "JNumber 10" "take 5 example_colours"]
       verifySettings_rejects [OF valid, of "JNumber 10" "example_colour ''extra'' # example_colours"]
       valid v five seven two colours offset
  show ?thesis
    by (simp add: digit del: show_nat.simps)
qed

section \<open>Properties of the chart geometry\<close>

lemma forEach_holes: "forEach callback (replicate n None) = replicate n None"
proof -
  have "fold (\<lambda>index a.
             if index < length a
             then (case a ! index of None \<Rightarrow> a | Some element \<Rightarrow> callback element index a)
             else a) is (replicate n None) = replicate n None" for "is"
    by (induction "is") simp_all
  then show ?thesis by (simp add: forEach_def)
qed

lemma new_Array_holes: "new_Array len = Inr arr \<Longrightarrow> arr = replicate (length arr) None"
  by (auto simp: new_Array_def split: jsnum.splits if_splits)

lemma getSvgTicks_shape:
  "\<exists>len cb. getSvgTicks settings (first # rest) =
      andThen (new_Array len) (\<lambda>ticks. Inr (forEach cb ticks))"
  unfolding getSvgTicks_def Let_def list.case by (intro exI) (rule refl)

text \<open>Whatever the settings and the resources, a tick array that \<open>getSvgTicks\<close> returns
  holds no tick: the callback of \<^verbatim>\<open>forEach\<close> is never called on the holes of
  \<^verbatim>\<open>new Array(n)\<close>.\<close>

lemma getSvgTicks_only_holes:
  assumes "getSvgTicks settings resources = Inr ticks"
  shows "ticks = replicate (length ticks) None"
proof (cases resources)
  case Nil
  with assms show ?thesis by (simp add: getSvgTicks_def)
next
  case (Cons first rest)
  with assms getSvgTicks_shape [of settings first rest]
  obtain len cb where "andThen (new_Array len) (\<lambda>ticks. Inr (forEach cb ticks)) = Inr ticks"
    by auto
  then obtain arr where arr: "new_Array len = Inr arr" "ticks = forEach cb arr"
    by (cases "new_Array len :: error + tick option list") (auto simp: andThen_def)
  from arr(1) have "arr = replicate (length arr) None"
    by (rule new_Array_holes)
  with arr(2) show ?thesis
    by (metis forEach_holes length_replicate)
qed

text \<open>
  Claim C7 says that the tick at index \<open>i\<close> has value \<open>i * step\<close>, the matching \<open>x\<close> and the
  common height. For one resource from 100 to 200 the step is 20, the rounded maximum 220
  and the rounded minimum 100, and \<open>getSvgTicks\<close> returns an array of (220 - 100) / 20 = 6
  entries, as the claim counts them; but every entry is a hole, no tick object is stored.
\<close>

theorem ticks_are_never_filled:
  "getSvgTicks example_geometry [resource_spanning 100 100] =
     Inr [None, None, None, None, None, None]"
  by code_simp






















section \<open>Properties of the mapping function\<close>

text \<open>
  Claim C5. When the \<^verbatim>\<open>restiming\<close> field of the payload is absent or is not an array,
  \<open>map_svg\<close> returns the empty string: it raises nothing, and neither the template, the
  settings nor the referer are looked at.
\<close>

theorem map_svg_not_array:
  "\<not> Array_isArray (restiming data) \<Longrightarrow> map_svg template settings data referer = Inr ''''"
  by (simp add: map_svg_def)

text \<open>
  Claim C5, at a payload without \<^verbatim>\<open>restiming\<close> and at one whose \<^verbatim>\<open>restiming\<close> is a string,
  with a template that would throw if it were called.
\<close>

theorem map_svg_not_array_witness:
  "\<not> Array_isArray (restiming \<lparr>restiming = RUndefined\<rparr>) \<and>
   map_svg (\<lambda>model. Inl (Error ''template called'')) example_geometry
     \<lparr>restiming = RUndefined\<rparr> ''http://example.com/'' = Inr '''' \<and>
   \<not> Array_isArray (restiming \<lparr>restiming = RString ''none''\<rparr>) \<and>
   map_svg (\<lambda>model. Inl (Error ''template called'')) example_geometry
     \<lparr>restiming = RString ''none''\<rparr> ''http://example.com/'' = Inr ''''"
proof -
  have a: "\<not> Array_isArray (restiming \<lparr>restiming = RUndefined\<rparr>)"
    by simp
  have b: "\<not> Array_isArray (restiming \<lparr>restiming = RString ''none''\<rparr>)"
    by simp
  from map_svg_not_array [OF a] map_svg_not_array [OF b] a b
  show ?thesis by blast
qed

end
